theory Spec2Isabelle
  imports Main
begin

section \<open>The router of \<open>src/middleware/auth.js\<close>\<close>

text \<open>
  The module exports one function: given the configuration it builds an Express router
  (session middleware, context middleware, login and logout routes, the callback route
  and the access gate). The model follows the file top to bottom. JavaScript values
  whose truthiness or type the code tests are values of \<open>jsval\<close>; thrown errors
  are values of \<open>error\<close>; the request and response objects a handler mutates are
  one record that every handler takes and returns.
\<close>

subsection \<open>Values and errors\<close>

text \<open>
  A thrown value carries a message. \<open>createError.BadRequest(msg)\<close> of http-errors is
  the error with status 400; the other two have no status of their own.
\<close>

datatype error = Error string | TypeError string | BadRequest string

fun message :: "error \<Rightarrow> string" where
  "message (Error m) = m"
| "message (TypeError m) = m"
| "message (BadRequest m) = m"

fun status :: "error \<Rightarrow> nat option" where
  "status (BadRequest m) = Some 400"
| "status (Error m) = None"
| "status (TypeError m) = None"

text \<open>
  The configuration values the code tests with \<open>if (v)\<close>, \<open>typeof v\<close> or \<open>===\<close>.
  \<open>'r\<close> is the argument a function value takes (the request). Numbers are the
  integers (NaN, the one other falsy number, is not represented).
\<close>

datatype 'r jsval =
    JUndefined
  | JNull
  | JBool bool
  | JNum int
  | JStr string
  | JObject
  | JFun "'r \<Rightarrow> 'r jsval"

fun truthy :: "'r jsval \<Rightarrow> bool" where
  "truthy JUndefined = False"
| "truthy JNull = False"
| "truthy (JBool b) = b"
| "truthy (JNum n) = (n \<noteq> 0)"
| "truthy (JStr s) = (s \<noteq> [])"
| "truthy JObject = True"
| "truthy (JFun f) = True"

text \<open>\<open>typeof v === 'function'\<close>\<close>

fun is_function :: "'r jsval \<Rightarrow> bool" where
  "is_function (JFun f) = True"
| "is_function v = False"

text \<open>\<open>a || b\<close> where \<open>a\<close> is a string or undefined: the empty string is falsy.\<close>

definition js_or :: "string option \<Rightarrow> string \<Rightarrow> string" where
  "js_or a b = (case a of None \<Rightarrow> b | Some v \<Rightarrow> if v = [] then b else v)"

subsection \<open>enforceLeadingSlash\<close>

text \<open>
  \<open>'/' === path.split('')[0] ? path : '/' + path\<close>. \<open>split('')\<close> of the empty string
  is the empty array, whose element 0 is undefined.
\<close>

definition enforceLeadingSlash :: "string \<Rightarrow> string" where
  "enforceLeadingSlash path =
     (case path of
        [] \<Rightarrow> CHR ''/'' # path
      | c # cs \<Rightarrow> if CHR ''/'' = c then path else CHR ''/'' # path)"

subsection \<open>Requests, the OIDC client, contexts\<close>

type_synonym claim_map = "(string \<times> string) list"

record tokenSet =
  access_token :: "string option"
  id_token :: "string option"
  refresh_token :: "string option"
  ts_claims :: "error + claim_map"

record http_request =
  req_method :: string
  req_url :: string
  req_params :: "(string \<times> string) list"

record checks =
  nonce :: "string option"
  state :: "string option"
  chk_response_type :: "string option"

text \<open>
  The OIDC client is an external capability: \<open>callbackParams(req)\<close> parses the
  authorization response, \<open>callback(redirectUri, params, checks)\<close> validates it and
  exchanges it for a token set. Either may throw (\<open>Inl\<close>).
\<close>

record oidc_client =
  callbackParams :: "http_request \<Rightarrow> error + (string \<times> string) list"
  callback :: "string \<Rightarrow> (string \<times> string) list \<Rightarrow> checks \<Rightarrow> error + tokenSet"

record requestContext =
  client :: "oidc_client option"
  isAuthenticated :: bool

record responseContext =
  getRedirectUri :: "error + string"

record session_obj =
  claims :: "claim_map option"

text \<open>
  What a handler sees and changes of \<open>req\<close> and \<open>res\<close>: the parsed cookies, the
  session object \<open>req[config.appSessionName]\<close> (\<open>None\<close> when the property is
  undefined), \<open>req.openidTokens\<close>, \<open>req.openid\<close>, \<open>res.openid\<close>, whether
  \<open>req.isAuthenticated\<close> is defined, the names read through \<open>getOnce\<close> so far
  and the targets of \<open>res.redirect\<close> so far.
\<close>

record reqres =
  req :: http_request
  cookies :: "(string \<times> string) list"
  session :: "session_obj option"
  openidTokens :: "tokenSet option"
  req_openid :: "requestContext option"
  res_openid :: "responseContext option"
  has_isAuthenticated :: bool
  consumed :: "string list"
  redirects :: "string list"

subsection \<open>Configuration\<close>

record authorization_params =
  response_type :: "string option"
  response_mode :: "reqres jsval"

text \<open>
  \<open>handleCallback\<close> is the application's extension point, a middleware
  \<open>(req, res, next)\<close>: it returns the invocations it makes of its continuation, in
  order (\<open>None\<close> for \<open>next()\<close>, \<open>Some e\<close> for \<open>next(e)\<close>), and the request and
  response as it leaves them.
\<close>

record config =
  authorizationParams :: authorization_params
  appSessionSecret :: "reqres jsval"
  appSessionName :: string
  routes :: "reqres jsval"
  loginPath :: string
  logoutPath :: string
  redirectUriPath :: string
  baseURL :: string
  identityClaimFilter :: "string list"
  config_legacySameSiteCookie :: bool
  handleCallback :: "reqres \<Rightarrow> error option list \<times> reqres"
  required :: "reqres jsval"

subsection \<open>The transient store\<close>

text \<open>
  Modelled from the spec: \<open>lib/transientHandler\<close> is not among the sources. The spec's
  contract: \<open>getOnce(name)\<close> returns the stored value or undefined and clears the
  backing cookie, so that a second call for the same name returns undefined; in the
  legacy same-site mode a fallback cookie form exists and \<open>getOnce\<close> checks both
  forms. The spec does not name the fallback cookie; here it is the name with an
  underscore in front. Every call is recorded in \<open>consumed\<close>.
\<close>

record transientOpts =
  legacySameSiteCookie :: bool

definition fallback_name :: "string \<Rightarrow> string" where
  "fallback_name key = CHR ''_'' # key"

definition clear_cookie :: "string \<Rightarrow> reqres \<Rightarrow> reqres" where
  "clear_cookie key s = s\<lparr>cookies := filter (\<lambda>kv. fst kv \<noteq> key) (cookies s)\<rparr>"

definition getOnce :: "string \<Rightarrow> transientOpts \<Rightarrow> reqres \<Rightarrow> string option \<times> reqres" where
  "getOnce key opts s =
     (let primary = map_of (cookies s) key;
          s1 = clear_cookie key s
      in if legacySameSiteCookie opts
         then (let fallback = map_of (cookies s1) (fallback_name key);
                   s2 = clear_cookie (fallback_name key) s1
               in ((case primary of Some v \<Rightarrow> Some v | None \<Rightarrow> fallback),
                   s2\<lparr>consumed := consumed s2 @ [key]\<rparr>))
         else (primary, s1\<lparr>consumed := consumed s1 @ [key]\<rparr>))"

subsection \<open>The single-invocation guard\<close>

text \<open>
  \<open>next = cb(next).once()\<close>: the package \<open>cb\<close> wraps a callback; with \<open>once()\<close>
  the first invocation is passed on to the wrapped callback and every later one is
  ignored. The wrapper never throws. In the spec's words it is a completion token that
  goes from pending to fired once. \<open>delivered\<close> lists the invocations that reached the
  wrapped continuation.
\<close>

datatype token = Pending | Fired

record once_cb =
  fired :: token
  delivered :: "error option list"

definition cb_once :: once_cb where
  "cb_once = \<lparr>fired = Pending, delivered = []\<rparr>"

definition invoke :: "error option \<Rightarrow> once_cb \<Rightarrow> once_cb" where
  "invoke arg g =
     (case fired g of
        Fired \<Rightarrow> g
      | Pending \<Rightarrow> g\<lparr>fired := Fired, delivered := delivered g @ [arg]\<rparr>)"

subsection \<open>The context middleware\<close>

text \<open>
  \<open>lib/context\<close> is not among the sources; its constructors and \<open>load\<close> are
  parameters. \<open>load\<close> returns or rejects, and leaves the context as it made it.
\<close>

record context_lib =
  newRequestContext :: "config \<Rightarrow> reqres \<Rightarrow> requestContext"
  load :: "requestContext \<Rightarrow> (error + unit) \<times> requestContext"
  newResponseContext :: "config \<Rightarrow> reqres \<Rightarrow> responseContext"

text \<open>
  A middleware returns the invocations of its continuation, in order, and the request
  and response as it leaves them. The \<open>catch\<close> block of the context middleware calls
  \<open>next(err)\<close> and does not return: the statements after the \<open>try\<close> run on both paths.
\<close>

definition context_middleware ::
    "context_lib \<Rightarrow> config \<Rightarrow> reqres \<Rightarrow> error option list \<times> reqres" where
  "context_middleware lib cfg s =
     (let s1 = s\<lparr>req_openid := Some (newRequestContext lib cfg s)\<rparr>;
          (r, ctx) = load lib (newRequestContext lib cfg s);
          s2 = s1\<lparr>req_openid := Some ctx\<rparr>;
          calls = (case r of Inl err \<Rightarrow> [Some err] | Inr u \<Rightarrow> []);
          s3 = s2\<lparr>res_openid := Some (newResponseContext lib cfg s2)\<rparr>;
          s4 = s3\<lparr>has_isAuthenticated := True\<rparr>
      in (calls @ [None], s4))"

subsection \<open>The callback route\<close>

text \<open>\<open>const transientOpts = { legacySameSiteCookie: config.legacySameSiteCookie }\<close>\<close>

definition transientOpts_of :: "config \<Rightarrow> transientOpts" where
  "transientOpts_of cfg = \<lparr>legacySameSiteCookie = config_legacySameSiteCookie cfg\<rparr>"

text \<open>
  The inner \<open>try\<close> block of the exchange handler. Reading a property of an undefined
  client throws a TypeError. The parameters are parsed first; the arguments of
  \<open>client.callback\<close> are evaluated left to right, so \<open>nonce\<close> is read before
  \<open>state\<close>, and both before the call. \<open>read_checks\<close> is the object literal
  \<open>{ nonce: transient.getOnce('nonce', ...), state: transient.getOnce('state', ...),
  response_type: authorizeParams.response_type }\<close>.
\<close>

definition read_checks :: "config \<Rightarrow> reqres \<Rightarrow> checks \<times> reqres" where
  "read_checks cfg s =
     (let (n, s1) = getOnce ''nonce'' (transientOpts_of cfg) s;
          (st, s2) = getOnce ''state'' (transientOpts_of cfg) s1
      in (\<lparr>nonce = n, state = st,
           chk_response_type = response_type (authorizationParams cfg)\<rparr>, s2))"

definition token_exchange ::
    "config \<Rightarrow> string \<Rightarrow> oidc_client option \<Rightarrow> reqres \<Rightarrow> (error + tokenSet) \<times> reqres" where
  "token_exchange cfg redirectUri cl s =
     (case cl of
        None \<Rightarrow> (Inl (TypeError ''Cannot read property callbackParams of undefined''), s)
      | Some c \<Rightarrow>
          (case callbackParams c (req s) of
             Inl err \<Rightarrow> (Inl err, s)
           | Inr ps \<Rightarrow>
               (let (chk, s2) = read_checks cfg s
                in (callback c redirectUri ps chk, s2))))"

text \<open>
  \<open>config.identityClaimFilter.forEach(claim => { delete identityClaims[claim]; })\<close>
\<close>

definition delete_claim :: "string \<Rightarrow> claim_map \<Rightarrow> claim_map" where
  "delete_claim claim identityClaims = filter (\<lambda>kv. fst kv \<noteq> claim) identityClaims"

definition filter_claims :: "string list \<Rightarrow> claim_map \<Rightarrow> claim_map" where
  "filter_claims excluded identityClaims = fold delete_claim excluded identityClaims"

text \<open>
  The outer \<open>try\<close> block up to, and without, its last statement \<open>next()\<close>. An error
  of the inner block is rethrown as \<open>BadRequest\<close> with the same message; everything
  else that throws (no \<open>res.openid\<close> or \<open>req.openid\<close>, \<open>getRedirectUri\<close>,
  \<open>tokenSet.claims()\<close>, assigning to a property of an undefined session object) reaches
  the outer \<open>catch\<close> as it is.
\<close>

definition exchange :: "config \<Rightarrow> reqres \<Rightarrow> (error + unit) \<times> reqres" where
  "exchange cfg s =
     (case res_openid s of
        None \<Rightarrow> (Inl (TypeError ''Cannot read property getRedirectUri of undefined''), s)
      | Some rc \<Rightarrow>
     (case getRedirectUri rc of
        Inl e \<Rightarrow> (Inl e, s)
      | Inr redirectUri \<Rightarrow>
     (case req_openid s of
        None \<Rightarrow> (Inl (TypeError ''Cannot read property client of undefined''), s)
      | Some qc \<Rightarrow>
     (case token_exchange cfg redirectUri (client qc) s of
        (Inl err, s1) \<Rightarrow> (Inl (BadRequest (message err)), s1)
      | (Inr tokenSet, s1) \<Rightarrow>
          (let s2 = s1\<lparr>openidTokens := Some tokenSet\<rparr>
           in if truthy (appSessionSecret cfg)
              then (case ts_claims tokenSet of
                      Inl e \<Rightarrow> (Inl e, s2)
                    | Inr identityClaims \<Rightarrow>
                        (case session s2 of
                           None \<Rightarrow> (Inl (TypeError ''Cannot set property claims of undefined''), s2)
                         | Some sess \<Rightarrow>
                             (Inr (),
                              s2\<lparr>session := Some (sess\<lparr>claims :=
                                    Some (filter_claims (identityClaimFilter cfg) identityClaims)\<rparr>)\<rparr>)))
              else (Inr (), s2))))))"

text \<open>
  The first handler of the callback route: \<open>next\<close> is wrapped, the body runs, and the
  wrapped continuation is invoked at the end of the \<open>try\<close> block or in the \<open>catch\<close>.
\<close>

definition exchange_handler :: "config \<Rightarrow> reqres \<Rightarrow> once_cb \<times> reqres" where
  "exchange_handler cfg s =
     (let nxt = cb_once
      in case exchange cfg s of
           (Inr u, s1) \<Rightarrow> (invoke None nxt, s1)
         | (Inl err, s1) \<Rightarrow> (invoke (Some err) nxt, s1))"

text \<open>
  The last handler: \<open>const returnTo = transient.getOnce('returnTo', ...) || config.baseURL;
  res.redirect(returnTo)\<close>
\<close>

definition final_handler :: "config \<Rightarrow> reqres \<Rightarrow> reqres" where
  "final_handler cfg s =
     (let (r, s1) = getOnce ''returnTo'' (transientOpts_of cfg) s;
          returnTo = js_or r (baseURL cfg)
      in s1\<lparr>redirects := redirects s1 @ [returnTo]\<rparr>)"

subsection \<open>The access gate\<close>

text \<open>
  \<open>./requiresAuth\<close> is not among the sources: the gate's events record that its
  middleware was called. With a function as \<open>config.required\<close> the mounted wrapper
  evaluates \<open>config.required(req)\<close> and calls \<open>next()\<close> when the result is falsy,
  \<open>requiresAuthMiddleware(req, res, next)\<close> otherwise.
\<close>

datatype gate_event = EvalRequired | CallNext | CallRequiresAuth

definition predicate_gate :: "(reqres \<Rightarrow> reqres jsval) \<Rightarrow> reqres \<Rightarrow> gate_event list" where
  "predicate_gate f s =
     (let r = f s
      in if \<not> truthy r then [EvalRequired, CallNext] else [EvalRequired, CallRequiresAuth])"

subsection \<open>The router\<close>

datatype http_method = GET | POST

datatype handler =
    AppSession string
  | Context
  | Urlencoded
  | CookieParser
  | Login
  | Logout
  | Exchange
  | HandleCallback
  | Final
  | PredicateGate
  | RequiresAuth

datatype layer = Use handler | Route http_method string "handler list"

text \<open>\<open>'form_post' === authorizeParams.response_mode ? 'post' : 'get'\<close>\<close>

definition callbackMethod :: "config \<Rightarrow> http_method" where
  "callbackMethod cfg =
     (if JStr ''form_post'' = response_mode (authorizationParams cfg) then POST else GET)"

definition session_layers :: "config \<Rightarrow> layer list" where
  "session_layers cfg =
     (if truthy (appSessionSecret cfg) then [Use (AppSession (appSessionName cfg))] else [])"

definition login_logout_layers :: "config \<Rightarrow> layer list" where
  "login_logout_layers cfg =
     (if truthy (routes cfg)
      then [Route GET (enforceLeadingSlash (loginPath cfg)) [Urlencoded, Login],
            Route GET (enforceLeadingSlash (logoutPath cfg)) [Logout]]
      else [])"

definition callback_layer :: "config \<Rightarrow> layer" where
  "callback_layer cfg =
     Route (callbackMethod cfg) (enforceLeadingSlash (redirectUriPath cfg))
       [Urlencoded, CookieParser, Exchange, HandleCallback, Final]"

definition gate_layers :: "config \<Rightarrow> layer list" where
  "gate_layers cfg =
     (if truthy (required cfg)
      then (if is_function (required cfg) then [Use PredicateGate] else [Use RequiresAuth])
      else [])"

text \<open>
  The exported function, as the list of what it mounts on the router, in order. (Its
  last statement, \<open>getClient(config)\<close>, mounts nothing.)
\<close>

definition auth :: "config \<Rightarrow> layer list" where
  "auth cfg =
     session_layers cfg @ [Use Context] @ login_logout_layers cfg @ [callback_layer cfg]
       @ gate_layers cfg"

text \<open>What the gate mounted for \<open>cfg\<close> does with a request that reaches it.\<close>

fun gate_handler :: "config \<Rightarrow> handler \<Rightarrow> reqres \<Rightarrow> gate_event list" where
  "gate_handler cfg PredicateGate s =
     (case required cfg of JFun f \<Rightarrow> predicate_gate f s | _ \<Rightarrow> [])"
| "gate_handler cfg RequiresAuth s = [CallRequiresAuth]"
| "gate_handler cfg h s = []"

fun layer_gate :: "config \<Rightarrow> reqres \<Rightarrow> layer \<Rightarrow> gate_event list" where
  "layer_gate cfg s (Use h) = gate_handler cfg h s"
| "layer_gate cfg s (Route m p hs) = []"

definition gate :: "config \<Rightarrow> reqres \<Rightarrow> gate_event list" where
  "gate cfg s = concat (map (layer_gate cfg s) (gate_layers cfg))"

subsection \<open>Running the callback route\<close>

text \<open>
  The handlers of the callback route after the two parsers (which hand on the request
  as it is given here). Each is a middleware: it returns the invocations it makes of
  its continuation, in order, and the request and response as it leaves them. The
  exchange handler's invocations are those its guard delivered; the final handler
  takes no continuation.
\<close>

type_synonym middleware = "reqres \<Rightarrow> error option list \<times> reqres"

definition exchange_middleware :: "config \<Rightarrow> middleware" where
  "exchange_middleware cfg s = (let (g, s1) = exchange_handler cfg s in (delivered g, s1))"

definition final_middleware :: "config \<Rightarrow> middleware" where
  "final_middleware cfg s = ([], final_handler cfg s)"

definition callback_stack :: "config \<Rightarrow> (handler \<times> middleware) list" where
  "callback_stack cfg =
     [(Exchange, exchange_middleware cfg),
      (HandleCallback, handleCallback cfg),
      (Final, final_middleware cfg)]"

text \<open>
  Express keeps one position for a route, shared by the continuations of all its
  handlers. Every invocation moves the position one handler on. Without an error the
  handler at the new position runs. With an error the handlers that are left (none an
  error handler of four arguments) are passed over and the route is left with the
  error. An invocation made when the position is past the last handler leaves the
  route. \<open>run_route hs calls s\<close> processes the pending invocations \<open>calls\<close> in order,
  \<open>hs\<close> being the handlers after the position; the invocations a handler makes are
  processed before those still pending. The result is how the route was left
  (\<open>None\<close>: on to what is mounted after it, \<open>Some e\<close>: to the error handling of the
  application), the handlers that ran with the invocations each made, and the request
  and response at the end.
\<close>

fun run_route ::
    "(handler \<times> middleware) list \<Rightarrow> error option list \<Rightarrow> reqres \<Rightarrow>
       error option list \<times> (handler \<times> error option list) list \<times> reqres" where
  "run_route hs [] s = ([], [], s)"
| "run_route [] (c # calls) s = (c # calls, [], s)"
| "run_route (hm # hs) (Some e # calls) s = (Some e # calls, [], s)"
| "run_route (hm # hs) (None # calls) s =
     (let (cs, s1) = snd hm s;
          (exits, tr, s2) = run_route hs (cs @ calls) s1
      in (exits, (fst hm, cs) # tr, s2))"

text \<open>The route is entered by the \<open>next()\<close> of the cookie parser.\<close>

definition route_exits :: "config \<Rightarrow> reqres \<Rightarrow> error option list" where
  "route_exits cfg s = fst (run_route (callback_stack cfg) [None] s)"

definition route_ran :: "config \<Rightarrow> reqres \<Rightarrow> (handler \<times> error option list) list" where
  "route_ran cfg s = fst (snd (run_route (callback_stack cfg) [None] s))"

fun errors_of :: "error option list \<Rightarrow> error list" where
  "errors_of [] = []"
| "errors_of (None # exits) = errors_of exits"
| "errors_of (Some e # exits) = e # errors_of exits"

text \<open>The errors the route hands to the error handling, and the final request and
  response.\<close>

definition callback_route :: "config \<Rightarrow> reqres \<Rightarrow> error list \<times> reqres" where
  "callback_route cfg s =
     (let (exits, tr, s') = run_route (callback_stack cfg) [None] s
      in (errors_of exits, s'))"

text \<open>The invocations handler \<open>h\<close> made of its continuation, and whether the first
  invocation in a list carries no error.\<close>

fun continuation_calls ::
    "handler \<Rightarrow> (handler \<times> error option list) list \<Rightarrow> error option list" where
  "continuation_calls h [] = []"
| "continuation_calls h (hc # tr) =
     (if fst hc = h then snd hc @ continuation_calls h tr else continuation_calls h tr)"

fun continues :: "error option list \<Rightarrow> bool" where
  "continues (None # calls) = True"
| "continues calls = False"

text \<open>Views of the mounted list: the paths of its routes, the registrations of the
  callback route (the route whose handlers include the exchange handler), the gate and
  the session middleware.\<close>

fun route_paths :: "layer list \<Rightarrow> string list" where
  "route_paths [] = []"
| "route_paths (Use h # ls) = route_paths ls"
| "route_paths (Route m p hs # ls) = p # route_paths ls"

fun callback_routes :: "layer list \<Rightarrow> (http_method \<times> string) list" where
  "callback_routes [] = []"
| "callback_routes (Use h # ls) = callback_routes ls"
| "callback_routes (Route m p hs # ls) =
     (if Exchange \<in> set hs then (m, p) # callback_routes ls else callback_routes ls)"

fun is_gate_layer :: "layer \<Rightarrow> bool" where
  "is_gate_layer (Use PredicateGate) = True"
| "is_gate_layer (Use RequiresAuth) = True"
| "is_gate_layer l = False"

fun is_session_layer :: "layer \<Rightarrow> bool" where
  "is_session_layer (Use (AppSession n)) = True"
| "is_session_layer l = False"

subsection \<open>The spec's end-to-end scenarios\<close>

text \<open>
  Scenarios 2 and 3 of the spec: a callback \<open>/callback?code=abc&state=st\<close> with stored
  state \<open>S1\<close>, stored nonce \<open>N1\<close> and stored return URL \<open>rt\<close>; the client accepts
  when the \<open>state\<close> parameter is the expected one and then returns tokens with the
  claims \<open>sub\<close> and \<open>email\<close>; the exclusion list is \<open>email\<close>.
\<close>

definition scenario_tokens :: tokenSet where
  "scenario_tokens =
     \<lparr>access_token = Some ''at'', id_token = Some ''idt'', refresh_token = None,
      ts_claims = Inr [(''sub'', ''u1''), (''email'', ''a@b.com'')]\<rparr>"

definition scenario_client :: oidc_client where
  "scenario_client =
     \<lparr>callbackParams = (\<lambda>r. Inr (req_params r)),
      callback = (\<lambda>uri ps chk.
         if map_of ps ''state'' = state chk then Inr scenario_tokens
         else Inl (Error ''state mismatch''))\<rparr>"

definition scenario_config :: config where
  "scenario_config =
     \<lparr>authorizationParams = \<lparr>response_type = Some ''code'', response_mode = JUndefined\<rparr>,
      appSessionSecret = JStr ''secret'',
      appSessionName = ''identity'',
      routes = JBool True,
      loginPath = ''login'',
      logoutPath = ''/logout'',
      redirectUriPath = ''/callback'',
      baseURL = ''https://app.example'',
      identityClaimFilter = [''email''],
      config_legacySameSiteCookie = True,
      handleCallback = (\<lambda>s. ([None], s)),
      required = JBool True\<rparr>"

definition scenario_request :: "string \<Rightarrow> string \<Rightarrow> reqres" where
  "scenario_request st rt =
     \<lparr>req = \<lparr>req_method = ''GET'', req_url = ''/callback'',
             req_params = [(''code'', ''abc''), (''state'', st)]\<rparr>,
      cookies = [(''nonce'', ''N1''), (''state'', ''S1''), (''returnTo'', rt)],
      session = Some \<lparr>claims = None\<rparr>,
      openidTokens = None,
      req_openid = Some \<lparr>client = Some scenario_client, isAuthenticated = False\<rparr>,
      res_openid = Some \<lparr>getRedirectUri = Inr ''https://app.example/callback''\<rparr>,
      has_isAuthenticated = True,
      consumed = [],
      redirects = []\<rparr>"

text \<open>An extension point that invokes its continuation twice.\<close>

definition twice_handler :: middleware where
  "twice_handler s = ([None, None], s)"

definition twice_config :: config where
  "twice_config = scenario_config\<lparr>handleCallback := twice_handler\<rparr>"

text \<open>A context library whose \<open>load\<close> rejects, as when discovery failed.\<close>

definition failing_lib :: context_lib where
  "failing_lib =
     \<lparr>newRequestContext = (\<lambda>cfg s. \<lparr>client = None, isAuthenticated = False\<rparr>),
      load = (\<lambda>ctx. (Inl (Error ''discovery failed''), ctx)),
      newResponseContext =
        (\<lambda>cfg s. \<lparr>getRedirectUri = Inr (baseURL cfg @ redirectUriPath cfg)\<rparr>)\<rparr>"

section \<open>Properties\<close>

subsection \<open>Route paths\<close>

lemma enforceLeadingSlash_cases:
  "enforceLeadingSlash p = (if p \<noteq> [] \<and> hd p = CHR ''/'' then p else CHR ''/'' # p)"
  by (cases p) (auto simp: enforceLeadingSlash_def)

lemma enforceLeadingSlash_head: "\<exists>t. enforceLeadingSlash p = CHR ''/'' # t"
  by (cases p) (auto simp: enforceLeadingSlash_def)

lemma enforceLeadingSlash_idem:
  "enforceLeadingSlash (enforceLeadingSlash p) = enforceLeadingSlash p"
  by (cases p) (auto simp: enforceLeadingSlash_def)

lemma route_paths_append: "route_paths (xs @ ys) = route_paths xs @ route_paths ys"
  by (induction xs rule: route_paths.induct) simp_all

lemma callback_routes_append:
  "callback_routes (xs @ ys) = callback_routes xs @ callback_routes ys"
  by (induction xs rule: callback_routes.induct) simp_all

lemma route_paths_auth:
  "route_paths (auth cfg) =
     (if truthy (routes cfg)
      then [enforceLeadingSlash (loginPath cfg), enforceLeadingSlash (logoutPath cfg)]
      else [])
     @ [enforceLeadingSlash (redirectUriPath cfg)]"
  by (simp add: auth_def route_paths_append session_layers_def login_logout_layers_def
      callback_layer_def gate_layers_def)

text \<open>
  C9. Every route path the router registers is the configured path passed through
  \<open>enforceLeadingSlash\<close>, which returns \<open>p\<close> when its first character is \<open>/\<close> and
  \<open>/\<close> followed by \<open>p\<close> otherwise. So every registered path begins with \<open>/\<close>, the
  normalisation is idempotent, and the empty string becomes \<open>/\<close>.
\<close>

theorem registered_paths_have_leading_slash:
  "route_paths (auth cfg) =
     map enforceLeadingSlash
       ((if truthy (routes cfg) then [loginPath cfg, logoutPath cfg] else [])
        @ [redirectUriPath cfg])
   \<and> enforceLeadingSlash p = (if p \<noteq> [] \<and> hd p = CHR ''/'' then p else CHR ''/'' # p)
   \<and> (\<forall>q \<in> set (route_paths (auth cfg)). \<exists>t. q = CHR ''/'' # t)
   \<and> (\<exists>t. enforceLeadingSlash p = CHR ''/'' # t)
   \<and> enforceLeadingSlash (enforceLeadingSlash p) = enforceLeadingSlash p
   \<and> enforceLeadingSlash [] = ''/''"
proof -
  have paths: "route_paths (auth cfg) =
     map enforceLeadingSlash
       ((if truthy (routes cfg) then [loginPath cfg, logoutPath cfg] else [])
        @ [redirectUriPath cfg])"
    by (simp add: route_paths_auth)
  have "\<forall>q \<in> set (route_paths (auth cfg)). \<exists>t. q = CHR ''/'' # t"
    unfolding paths using enforceLeadingSlash_head by auto
  moreover have "enforceLeadingSlash [] = ''/''"
    by (simp add: enforceLeadingSlash_def)
  ultimately show ?thesis
    using paths enforceLeadingSlash_cases [of p] enforceLeadingSlash_head [of p]
      enforceLeadingSlash_idem [of p]
    by blast
qed

theorem registered_paths_have_leading_slash_witness:
  "route_paths (auth scenario_config) = [''/login'', ''/logout'', ''/callback'']
   \<and> enforceLeadingSlash ''login'' = ''/login''
   \<and> enforceLeadingSlash ''/logout'' = ''/logout''
   \<and> enforceLeadingSlash (enforceLeadingSlash ''login'') = ''/login''"
  using registered_paths_have_leading_slash [of scenario_config "''login''"]
    registered_paths_have_leading_slash [of scenario_config "''/logout''"]
  by (simp add: scenario_config_def enforceLeadingSlash_def)

subsection \<open>The method of the callback route\<close>

lemma callback_routes_auth:
  "callback_routes (auth cfg) =
     [(callbackMethod cfg, enforceLeadingSlash (redirectUriPath cfg))]"
  by (simp add: auth_def callback_routes_append session_layers_def login_logout_layers_def
      callback_layer_def gate_layers_def)

text \<open>
  C5. The callback route is registered once, for one HTTP method: POST exactly when the
  configured \<open>response_mode\<close> is the string \<open>form_post\<close>, GET for every other value.
\<close>

theorem callback_method_by_response_mode:
  "(callbackMethod cfg = POST) = (response_mode (authorizationParams cfg) = JStr ''form_post'')
   \<and> (callbackMethod cfg = GET) = (response_mode (authorizationParams cfg) \<noteq> JStr ''form_post'')
   \<and> callback_routes (auth cfg) =
       [(callbackMethod cfg, enforceLeadingSlash (redirectUriPath cfg))]"
  by (auto simp: callbackMethod_def callback_routes_auth)

theorem callback_method_by_response_mode_witness:
  "callback_routes (auth scenario_config) = [(GET, ''/callback'')]
   \<and> callback_routes
        (auth (scenario_config\<lparr>authorizationParams :=
           \<lparr>response_type = Some ''id_token'', response_mode = JStr ''form_post''\<rparr>\<rparr>))
       = [(POST, ''/callback'')]"
  using callback_method_by_response_mode [of scenario_config]
    callback_method_by_response_mode [of "scenario_config\<lparr>authorizationParams :=
           \<lparr>response_type = Some ''id_token'', response_mode = JStr ''form_post''\<rparr>\<rparr>"]
  by (simp add: scenario_config_def enforceLeadingSlash_def)

subsection \<open>What the handlers read and leave alone\<close>

lemma getOnce_consumed: "consumed (snd (getOnce k opts s)) = consumed s @ [k]"
  by (simp add: getOnce_def clear_cookie_def Let_def)

lemma getOnce_frame:
  "session (snd (getOnce k opts s)) = session s"
  "openidTokens (snd (getOnce k opts s)) = openidTokens s"
  "redirects (snd (getOnce k opts s)) = redirects s"
  "req (snd (getOnce k opts s)) = req s"
  "req_openid (snd (getOnce k opts s)) = req_openid s"
  "res_openid (snd (getOnce k opts s)) = res_openid s"
  by (simp_all add: getOnce_def clear_cookie_def Let_def)

lemma map_of_filter_out:
  "map_of (filter (\<lambda>kv. fst kv \<noteq> k) xs) k = None"
  "map_of (filter (\<lambda>kv. fst kv \<noteq> k \<and> Q kv) xs) k = None"
  "map_of (filter (\<lambda>kv. Q kv \<and> fst kv \<noteq> k) xs) k = None"
  by (induction xs) auto

text \<open>The single-use law of the transient store: a second read of a name finds nothing.\<close>

lemma getOnce_single_use: "fst (getOnce k opts (snd (getOnce k opts s))) = None"
  by (simp add: getOnce_def clear_cookie_def Let_def map_of_filter_out)

lemma read_checks_consumed:
  "consumed (snd (read_checks cfg s)) = consumed s @ [''nonce'', ''state'']"
  by (simp add: read_checks_def split_beta Let_def getOnce_consumed)

lemma read_checks_frame:
  "session (snd (read_checks cfg s)) = session s"
  "openidTokens (snd (read_checks cfg s)) = openidTokens s"
  "redirects (snd (read_checks cfg s)) = redirects s"
  by (simp_all add: read_checks_def split_beta Let_def getOnce_frame)

lemma token_exchange_frame:
  "session (snd (token_exchange cfg uri cl s)) = session s"
  "openidTokens (snd (token_exchange cfg uri cl s)) = openidTokens s"
  "redirects (snd (token_exchange cfg uri cl s)) = redirects s"
  by (simp_all add: token_exchange_def split_beta Let_def read_checks_frame
      split: option.splits sum.splits)

lemma token_exchange_parsed:
  "callbackParams c (req s) = Inr ps \<Longrightarrow>
   token_exchange cfg uri (Some c) s =
     (callback c uri ps (fst (read_checks cfg s)), snd (read_checks cfg s))"
  by (simp add: token_exchange_def split_beta)

lemma token_exchange_unparsed:
  "callbackParams c (req s) = Inl e \<Longrightarrow> token_exchange cfg uri (Some c) s = (Inl e, s)"
  by (simp add: token_exchange_def)

lemma exchange_handler_eq:
  "exchange_handler cfg s =
     (\<lparr>fired = Fired,
       delivered = [case fst (exchange cfg s) of Inl e \<Rightarrow> Some e | Inr u \<Rightarrow> None]\<rparr>,
      snd (exchange cfg s))"
proof (cases "exchange cfg s")
  case (Pair r s1)
  then show ?thesis
    by (cases r) (simp_all add: exchange_handler_def cb_once_def invoke_def)
qed

lemma exchange_middleware_eq:
  "exchange_middleware cfg s =
     ([case fst (exchange cfg s) of Inl e \<Rightarrow> Some e | Inr u \<Rightarrow> None], snd (exchange cfg s))"
  by (simp add: exchange_middleware_def exchange_handler_eq)

lemma run_route_past_end: "run_route [] calls s = (calls, [], s)"
  by (cases calls) simp_all

lemma run_final:
  "run_route [(Final, final_middleware cfg)] cs s =
     (if continues cs then (tl cs, [(Final, [])], final_handler cfg s) else (cs, [], s))"
proof (cases cs)
  case Nil
  then show ?thesis by simp
next
  case (Cons c calls)
  then show ?thesis
    by (cases c) (simp_all add: final_middleware_def run_route_past_end)
qed

lemma route_failed:
  "exchange cfg s = (Inl e, s1) \<Longrightarrow>
   run_route (callback_stack cfg) [None] s = ([Some e], [(Exchange, [Some e])], s1)"
  by (simp add: callback_stack_def exchange_middleware_eq)

lemma route_succeeded:
  "exchange cfg s = (Inr u, s1) \<Longrightarrow> handleCallback cfg s1 = (cs, s2) \<Longrightarrow>
   run_route (callback_stack cfg) [None] s =
     (if continues cs
      then (tl cs, [(Exchange, [None]), (HandleCallback, cs), (Final, [])],
            final_handler cfg s2)
      else (cs, [(Exchange, [None]), (HandleCallback, cs)], s2))"
  by (simp add: callback_stack_def exchange_middleware_eq run_final)

lemmas scenario_defs =
  scenario_config_def scenario_request_def scenario_client_def scenario_tokens_def

lemmas callback_defs =
  exchange_def token_exchange_def read_checks_def getOnce_def clear_cookie_def
  fallback_name_def transientOpts_of_def filter_claims_def delete_claim_def

text \<open>
  C3, as amended. The single-invocation guard \<open>cb(next).once()\<close> wraps the
  continuation of the exchange handler, not the one handed to the extension point
  \<open>config.handleCallback\<close>. For every callback request the exchange handler delivers
  exactly one invocation to its continuation; the guard is then fired, and a further
  invocation of the guarded continuation changes nothing. So the extension point runs
  once when the exchange handler continued without an error and not at all otherwise.
  Its own continuation is unguarded: every invocation the extension point makes of it
  takes effect. When the first carries no error the final handler runs, once; every
  other invocation leaves the route.
\<close>

theorem exchange_continuation_invoked_once:
  "(\<exists>a. delivered (fst (exchange_handler cfg s)) = [a]
        \<and> continuation_calls Exchange (route_ran cfg s) = [a])
   \<and> fired (fst (exchange_handler cfg s)) = Fired
   \<and> invoke b (fst (exchange_handler cfg s)) = fst (exchange_handler cfg s)
   \<and> delivered (invoke b (invoke a' cb_once)) = [a']
   \<and> count_list (map fst (route_ran cfg s)) HandleCallback
       = (if delivered (fst (exchange_handler cfg s)) = [None] then 1 else 0)
   \<and> continuation_calls HandleCallback (route_ran cfg s)
       = (if delivered (fst (exchange_handler cfg s)) = [None]
          then fst (handleCallback cfg (snd (exchange_handler cfg s))) else [])
   \<and> count_list (map fst (route_ran cfg s)) Final
       = (if delivered (fst (exchange_handler cfg s)) = [None]
             \<and> continues (fst (handleCallback cfg (snd (exchange_handler cfg s))))
          then 1 else 0)
   \<and> route_exits cfg s
       = (if delivered (fst (exchange_handler cfg s)) = [None]
          then (if continues (fst (handleCallback cfg (snd (exchange_handler cfg s))))
                then tl (fst (handleCallback cfg (snd (exchange_handler cfg s))))
                else fst (handleCallback cfg (snd (exchange_handler cfg s))))
          else delivered (fst (exchange_handler cfg s)))"
proof (cases "exchange cfg s")
  case (Pair r s1)
  show ?thesis
  proof (cases r)
    case (Inl e)
    with Pair have ex: "exchange cfg s = (Inl e, s1)"
      by simp
    show ?thesis
      using route_failed [OF ex] ex
      by (simp add: route_ran_def route_exits_def exchange_handler_eq invoke_def cb_once_def)
  next
    case (Inr u)
    with Pair have ex: "exchange cfg s = (Inr u, s1)"
      by simp
    obtain cs s2 where hc: "handleCallback cfg s1 = (cs, s2)"
      by (cases "handleCallback cfg s1")
    show ?thesis
      using route_succeeded [OF ex hc] ex hc
      by (simp add: route_ran_def route_exits_def exchange_handler_eq invoke_def cb_once_def)
  qed
qed

theorem exchange_continuation_invoked_once_witness:
  "delivered (fst (exchange_handler scenario_config (scenario_request ''S1'' ''/profile'')))
     = [None]
   \<and> delivered (invoke (Some (Error ''late''))
        (fst (exchange_handler scenario_config (scenario_request ''S1'' ''/profile''))))
     = [None]
   \<and> continuation_calls HandleCallback
        (route_ran scenario_config (scenario_request ''S1'' ''/profile'')) = [None]
   \<and> route_exits scenario_config (scenario_request ''S1'' ''/profile'') = []"
  using exchange_continuation_invoked_once
    [of scenario_config "scenario_request ''S1'' ''/profile''" "Some (Error ''late'')"]
  by (simp add: exchange_handler_eq callback_defs scenario_defs)

text \<open>
  C3 as stated fails twice over. On scenario 3 of the spec (the exchange fails) the
  extension point does not run and the continuation handed to it is never invoked.
  With an extension point that invokes its continuation twice, both invocations take
  effect: the first runs the final handler, the second leaves the route.
\<close>

theorem extension_continuation_unguarded_counterexample:
  "continuation_calls HandleCallback
     (route_ran scenario_config (scenario_request ''WRONG'' ''/profile'')) = []
   \<and> continuation_calls HandleCallback
        (route_ran twice_config (scenario_request ''S1'' ''/profile'')) = [None, None]
   \<and> route_exits twice_config (scenario_request ''S1'' ''/profile'') = [None]"
proof -
  have bad: "exchange scenario_config (scenario_request ''WRONG'' ''/profile'')
      = (Inl (BadRequest ''state mismatch''),
         snd (exchange scenario_config (scenario_request ''WRONG'' ''/profile'')))"
    by (simp add: callback_defs scenario_defs)
  have ok: "exchange twice_config (scenario_request ''S1'' ''/profile'')
      = (Inr (), snd (exchange twice_config (scenario_request ''S1'' ''/profile'')))"
    by (simp add: twice_config_def callback_defs scenario_defs)
  have hc: "handleCallback twice_config
        (snd (exchange twice_config (scenario_request ''S1'' ''/profile'')))
      = ([None, None], snd (exchange twice_config (scenario_request ''S1'' ''/profile'')))"
    by (simp add: twice_config_def twice_handler_def)
  show ?thesis
    using route_failed [OF bad] route_succeeded [OF ok hc]
    by (simp add: route_ran_def route_exits_def)
qed

text \<open>
  C6, as amended. The final handler answers with one redirect. Its target is the value
  \<open>getOnce\<close> retrieves for \<open>returnTo\<close> when that is a non-empty string, and the
  configured base URL when no value was stored or the stored value is the empty
  string.
\<close>

theorem final_redirect_target:
  "redirects (final_handler cfg s) =
     redirects s @
       [case fst (getOnce ''returnTo'' (transientOpts_of cfg) s) of
          None \<Rightarrow> baseURL cfg
        | Some v \<Rightarrow> if v = [] then baseURL cfg else v]"
  by (simp add: final_handler_def split_beta js_or_def getOnce_frame split: option.splits)

theorem final_redirect_target_witness:
  "redirects (final_handler scenario_config (scenario_request ''S1'' ''/profile''))
     = [''/profile'']
   \<and> redirects (final_handler scenario_config
        ((scenario_request ''S1'' ''/profile'')\<lparr>cookies := []\<rparr>)) = [''https://app.example'']"
  using final_redirect_target [of scenario_config "scenario_request ''S1'' ''/profile''"]
    final_redirect_target
      [of scenario_config "(scenario_request ''S1'' ''/profile'')\<lparr>cookies := []\<rparr>"]
  by (simp add: callback_defs scenario_defs)

text \<open>
  C6 as stated fails where the stored \<open>returnTo\<close> is the empty string: the value
  retrieved is the empty string, yet the redirect goes to the base URL.
\<close>

theorem empty_returnTo_counterexample:
  "fst (getOnce ''returnTo'' (transientOpts_of scenario_config) (scenario_request ''S1'' []))
     = Some []
   \<and> redirects (final_handler scenario_config (scenario_request ''S1'' []))
       \<noteq> redirects (scenario_request ''S1'' []) @ [[]]
   \<and> redirects (final_handler scenario_config (scenario_request ''S1'' []))
       = [''https://app.example'']"
  by (simp add: final_handler_def js_or_def callback_defs scenario_defs)


subsection \<open>The access gate\<close>

lemma gate_layers_auth: "filter is_gate_layer (auth cfg) = gate_layers cfg"
  by (simp add: auth_def session_layers_def login_logout_layers_def callback_layer_def
      gate_layers_def)

text \<open>
  C7. The gate is the only thing mounted after the routes. With a falsy \<open>required\<close>
  nothing is mounted and no request is gated. With a function, the mounted wrapper
  evaluates the predicate once on each request and calls the authentication
  middleware exactly when the result is truthy, \<open>next()\<close> otherwise. With any other
  truthy value the authentication middleware itself is mounted and runs on every
  request that reaches it.
\<close>

theorem access_gate_three_way:
  "filter is_gate_layer (auth cfg) = gate_layers cfg
   \<and> (\<not> truthy (required cfg) \<longrightarrow> gate_layers cfg = [] \<and> gate cfg s = [])
   \<and> (\<forall>f. required cfg = JFun f \<longrightarrow>
         gate_layers cfg = [Use PredicateGate]
         \<and> gate cfg s = [EvalRequired, if truthy (f s) then CallRequiresAuth else CallNext]
         \<and> (CallRequiresAuth \<in> set (gate cfg s)) = truthy (f s)
         \<and> count_list (gate cfg s) EvalRequired = 1)
   \<and> (truthy (required cfg) \<and> \<not> is_function (required cfg) \<longrightarrow>
         gate_layers cfg = [Use RequiresAuth] \<and> gate cfg s = [CallRequiresAuth])"
  by (auto simp: gate_layers_auth gate_layers_def gate_def predicate_gate_def Let_def)

theorem access_gate_three_way_witness:
  "gate (scenario_config\<lparr>required := JBool False\<rparr>) (scenario_request ''S1'' ''/profile'') = []
   \<and> gate (scenario_config\<lparr>required := JFun (\<lambda>r. JBool (req_url (req r) = ''/admin''))\<rparr>)
        (scenario_request ''S1'' ''/profile'') = [EvalRequired, CallNext]
   \<and> gate (scenario_config\<lparr>required := JFun (\<lambda>r. JBool (req_url (req r) = ''/callback''))\<rparr>)
        (scenario_request ''S1'' ''/profile'') = [EvalRequired, CallRequiresAuth]
   \<and> gate scenario_config (scenario_request ''S1'' ''/profile'') = [CallRequiresAuth]"
  using access_gate_three_way
      [of "scenario_config\<lparr>required := JBool False\<rparr>" "scenario_request ''S1'' ''/profile''"]
    access_gate_three_way
      [of "scenario_config\<lparr>required := JFun (\<lambda>r. JBool (req_url (req r) = ''/admin''))\<rparr>"
          "scenario_request ''S1'' ''/profile''"]
    access_gate_three_way
      [of "scenario_config\<lparr>required := JFun (\<lambda>r. JBool (req_url (req r) = ''/callback''))\<rparr>"
          "scenario_request ''S1'' ''/profile''"]
    access_gate_three_way [of scenario_config "scenario_request ''S1'' ''/profile''"]
  by (simp add: scenario_defs)

subsection \<open>The context middleware\<close>

text \<open>
  C10. When \<open>req.openid.load()\<close> rejects, the context middleware calls its continuation
  with the error and then goes on: \<open>res.openid\<close> is constructed,
  \<open>req.isAuthenticated\<close> is defined and the continuation is called a second time,
  without an error.
\<close>

theorem context_load_failure_continues:
  assumes "fst (load lib (newRequestContext lib cfg s)) = Inl err"
  shows "fst (context_middleware lib cfg s) = [Some err, None]
     \<and> res_openid (snd (context_middleware lib cfg s)) \<noteq> None
     \<and> has_isAuthenticated (snd (context_middleware lib cfg s))"
  using assms by (simp add: context_middleware_def split_beta Let_def)

theorem context_load_failure_continues_witness:
  "fst (context_middleware failing_lib scenario_config (scenario_request ''S1'' ''/profile''))
     = [Some (Error ''discovery failed''), None]
   \<and> res_openid (snd (context_middleware failing_lib scenario_config
        (scenario_request ''S1'' ''/profile''))) \<noteq> None"
proof -
  have h: "fst (load failing_lib (newRequestContext failing_lib scenario_config
      (scenario_request ''S1'' ''/profile''))) = Inl (Error ''discovery failed'')"
    by (simp add: failing_lib_def)
  show ?thesis
    using context_load_failure_continues [OF h] by simp
qed


subsection \<open>A failed exchange\<close>

lemma exchange_failed:
  assumes "res_openid s = Some rc" "getRedirectUri rc = Inr uri" "req_openid s = Some qc"
    and "token_exchange cfg uri (client qc) s = (Inl err, s1)"
  shows "exchange cfg s = (Inl (BadRequest (message err)), s1)"
  using assms by (simp add: exchange_def)

lemma exchange_handler_failed:
  "exchange cfg s = (Inl e, s1) \<Longrightarrow>
   exchange_handler cfg s = (\<lparr>fired = Fired, delivered = [Some e]\<rparr>, s1)"
  by (simp add: exchange_handler_eq)

lemma callback_route_failed:
  "exchange cfg s = (Inl e, s1) \<Longrightarrow> callback_route cfg s = ([e], s1)"
  by (simp add: callback_route_def route_failed)

text \<open>
  C1. When the client's \<open>callbackParams\<close> or its \<open>callback\<close> throws, the callback
  route fails with the one error \<open>BadRequest\<close> (status 400) carrying the thrown
  message; neither the extension point nor the final handler runs, so nothing is
  redirected, and the session object and \<open>req.openidTokens\<close> are as they were before
  the request.
\<close>

theorem failed_exchange_is_bad_request:
  assumes "res_openid s = Some rc" and "getRedirectUri rc = Inr uri"
    and "req_openid s = Some qc" and "client qc = Some c"
    and "callbackParams c (req s) = Inl err \<or>
         (\<exists>ps. callbackParams c (req s) = Inr ps
            \<and> callback c uri ps (fst (read_checks cfg s)) = Inl err)"
  shows "\<exists>s'. callback_route cfg s = ([BadRequest (message err)], s')
           \<and> exchange_handler cfg s =
               (\<lparr>fired = Fired, delivered = [Some (BadRequest (message err))]\<rparr>, s')
           \<and> status (BadRequest (message err)) = Some 400
           \<and> session s' = session s
           \<and> openidTokens s' = openidTokens s
           \<and> redirects s' = redirects s"
proof -
  from assms(5) obtain s1 where tx: "token_exchange cfg uri (Some c) s = (Inl err, s1)"
    by (auto simp: token_exchange_parsed token_exchange_unparsed)
  have frame: "session s1 = session s" "openidTokens s1 = openidTokens s"
    "redirects s1 = redirects s"
    using token_exchange_frame [of cfg uri "Some c" s] tx by simp_all
  have ex: "exchange cfg s = (Inl (BadRequest (message err)), s1)"
    using exchange_failed [OF assms(1-3)] tx assms(4) by simp
  show ?thesis
    using callback_route_failed [OF ex] exchange_handler_failed [OF ex] frame by simp
qed

theorem failed_exchange_is_bad_request_witness:
  "fst (callback_route scenario_config (scenario_request ''WRONG'' ''/profile''))
     = [BadRequest ''state mismatch'']
   \<and> session (snd (callback_route scenario_config (scenario_request ''WRONG'' ''/profile'')))
     = Some \<lparr>claims = None\<rparr>"
proof -
  let ?s = "scenario_request ''WRONG'' ''/profile''"
  have h1: "res_openid ?s = Some \<lparr>getRedirectUri = Inr ''https://app.example/callback''\<rparr>"
    by (simp add: scenario_defs)
  have h2: "getRedirectUri \<lparr>getRedirectUri = Inr ''https://app.example/callback''\<rparr>
      = Inr ''https://app.example/callback''"
    by simp
  have h3: "req_openid ?s = Some \<lparr>client = Some scenario_client, isAuthenticated = False\<rparr>"
    by (simp add: scenario_defs)
  have h4: "client \<lparr>client = Some scenario_client, isAuthenticated = False\<rparr>
      = Some scenario_client"
    by simp
  have h5: "callbackParams scenario_client (req ?s) = Inl (Error ''state mismatch'') \<or>
     (\<exists>ps. callbackParams scenario_client (req ?s) = Inr ps
        \<and> callback scenario_client ''https://app.example/callback'' ps
             (fst (read_checks scenario_config ?s)) = Inl (Error ''state mismatch''))"
    by (simp add: callback_defs scenario_defs)
  from failed_exchange_is_bad_request [OF h1 h2 h3 h4 h5]
  obtain s' where "callback_route scenario_config ?s = ([BadRequest ''state mismatch''], s')"
    and "session s' = session ?s"
    by auto
  then show ?thesis by (simp add: scenario_defs)
qed


subsection \<open>Claim filtering\<close>

lemma filter_claims_eq: "filter_claims ex m = filter (\<lambda>kv. fst kv \<notin> set ex) m"
proof (induction ex arbitrary: m)
  case Nil
  then show ?case by (simp add: filter_claims_def)
next
  case (Cons k ex)
  have "filter_claims (k # ex) m = filter_claims ex (delete_claim k m)"
    by (simp add: filter_claims_def)
  also have "\<dots> = filter (\<lambda>kv. fst kv \<notin> set ex) (filter (\<lambda>kv. fst kv \<noteq> k) m)"
    by (simp add: Cons.IH delete_claim_def)
  also have "\<dots> = filter (\<lambda>kv. fst kv \<notin> set (k # ex)) m"
    by (induction m) auto
  finally show ?case .
qed

lemma map_of_filter_keys:
  "map_of (filter (\<lambda>kv. fst kv \<notin> A) m) k = (if k \<in> A then None else map_of m k)"
  by (induction m) auto

lemma exchange_succeeded:
  assumes "exchange cfg s = (Inr u, s')" and "truthy (appSessionSecret cfg)"
  shows "\<exists>rc uri qc s1 ts cl sess.
           res_openid s = Some rc \<and> getRedirectUri rc = Inr uri \<and> req_openid s = Some qc
           \<and> token_exchange cfg uri (client qc) s = (Inr ts, s1)
           \<and> openidTokens s' = Some ts \<and> ts_claims ts = Inr cl
           \<and> session s' = Some sess
           \<and> claims sess = Some (filter_claims (identityClaimFilter cfg) cl)"
  using assms
  by (auto simp: exchange_def Let_def split: option.splits sum.splits prod.splits)

text \<open>
  C4. With a session secret configured, after a successful exchange the session's
  claims are the claims of the token set the client returned, with the names of
  \<open>config.identityClaimFilter\<close> deleted. For every exclusion list \<open>ex\<close> and claim
  mapping \<open>m\<close> the filtered mapping holds no excluded name, holds every entry of \<open>m\<close>
  whose name is not excluded (looking a name up gives what \<open>m\<close> gives), and filtering
  it again changes nothing.
\<close>

theorem session_claims_filtered:
  assumes "truthy (appSessionSecret cfg)"
    and "exchange_handler cfg s = (g, s')" and "delivered g = [None]"
  shows "(\<exists>rc uri qc s1 ts cl sess.
            res_openid s = Some rc \<and> getRedirectUri rc = Inr uri \<and> req_openid s = Some qc
            \<and> token_exchange cfg uri (client qc) s = (Inr ts, s1)
            \<and> openidTokens s' = Some ts \<and> ts_claims ts = Inr cl
            \<and> session s' = Some sess
            \<and> claims sess = Some (filter_claims (identityClaimFilter cfg) cl))
     \<and> fst ` set (filter_claims ex m) \<inter> set ex = {}
     \<and> (\<forall>kv \<in> set m. fst kv \<notin> set ex \<longrightarrow> kv \<in> set (filter_claims ex m))
     \<and> map_of (filter_claims ex m) k = (if k \<in> set ex then None else map_of m k)
     \<and> filter_claims ex (filter_claims ex m) = filter_claims ex m"
proof -
  from assms(2,3) have "exchange cfg s = (Inr (), s')"
    by (cases "fst (exchange cfg s)") (auto simp: exchange_handler_eq prod_eq_iff)
  from exchange_succeeded [OF this assms(1)] show ?thesis
    by (auto simp: filter_claims_eq map_of_filter_keys)
qed

theorem session_claims_filtered_witness:
  "session (snd (exchange_handler scenario_config (scenario_request ''S1'' ''/profile'')))
     = Some \<lparr>claims = Some [(''sub'', ''u1'')]\<rparr>
   \<and> filter_claims [''email''] [(''sub'', ''u1''), (''email'', ''a@b.com'')] = [(''sub'', ''u1'')]
   \<and> filter_claims [''email''] [(''sub'', ''u1'')] = [(''sub'', ''u1'')]"
proof -
  let ?s = "scenario_request ''S1'' ''/profile''"
  let ?r = "exchange_handler scenario_config ?s"
  have h1: "truthy (appSessionSecret scenario_config)"
    by (simp add: scenario_defs)
  have h2: "?r = (fst ?r, snd ?r)"
    by simp
  have h3: "delivered (fst ?r) = [None]"
    by (simp add: exchange_handler_eq callback_defs scenario_defs)
  from session_claims_filtered [OF h1 h2 h3, of "[''email'']" "[(''sub'', ''u1''), (''email'', ''a@b.com'')]" "''email''"]
  obtain ts cl sess where a: "openidTokens (snd ?r) = Some ts" "ts_claims ts = Inr cl"
      "session (snd ?r) = Some sess"
      "claims sess = Some (filter_claims (identityClaimFilter scenario_config) cl)"
    and b: "filter_claims [''email''] (filter_claims [''email''] [(''sub'', ''u1''), (''email'', ''a@b.com'')])
       = filter_claims [''email''] [(''sub'', ''u1''), (''email'', ''a@b.com'')]"
    by blast
  have c: "openidTokens (snd ?r) = Some scenario_tokens"
    by (simp add: exchange_handler_eq callback_defs scenario_defs)
  have d: "filter_claims [''email''] [(''sub'', ''u1''), (''email'', ''a@b.com'')] = [(''sub'', ''u1'')]"
    by (simp add: filter_claims_def delete_claim_def)
  from a c have "ts = scenario_tokens"
    by simp
  with a have "cl = [(''sub'', ''u1''), (''email'', ''a@b.com'')]"
    by (simp add: scenario_tokens_def)
  with a d have "session (snd ?r) = Some \<lparr>claims = Some [(''sub'', ''u1'')]\<rparr>"
    by (cases sess) (simp add: scenario_config_def)
  with b d show ?thesis by simp
qed


subsection \<open>Without a session secret\<close>

lemma session_layers_auth: "filter is_session_layer (auth cfg) = session_layers cfg"
  by (simp add: auth_def session_layers_def login_logout_layers_def callback_layer_def
      gate_layers_def)

lemma exchange_session_without_secret:
  "\<not> truthy (appSessionSecret cfg) \<Longrightarrow> session (snd (exchange cfg s)) = session s"
  using token_exchange_frame(1)
  by (auto simp: exchange_def Let_def split: option.splits sum.splits prod.splits)
     (metis snd_conv)+

lemma final_handler_session: "session (final_handler cfg s) = session s"
  by (simp add: final_handler_def split_beta getOnce_frame)

lemma context_middleware_session: "session (snd (context_middleware lib cfg s)) = session s"
  by (simp add: context_middleware_def split_beta Let_def)

lemma run_route_session:
  assumes "\<And>h m t. (h, m) \<in> set hs \<Longrightarrow> session (snd (m t)) = session t"
  shows "session (snd (snd (run_route hs calls s))) = session s"
  using assms
proof (induction hs arbitrary: calls s)
  case Nil
  show ?case by (simp add: run_route_past_end)
next
  case (Cons hm hs)
  note IH = Cons.IH and prems = Cons.prems
  show ?case
  proof (cases calls)
    case Nil
    then show ?thesis by simp
  next
    case (Cons c calls')
    show ?thesis
    proof (cases c)
      case (Some e)
      with Cons show ?thesis by simp
    next
      case None
      obtain h m where hm: "hm = (h, m)"
        by (cases hm)
      have here: "session (snd (m s)) = session s"
        using prems [of h m s] hm by simp
      have rest: "session (snd (snd (run_route hs (fst (m s) @ calls') (snd (m s)))))
          = session (snd (m s))"
      proof (rule IH)
        fix h' m' t
        assume "(h', m') \<in> set hs"
        then show "session (snd (m' t)) = session t"
          using prems [of h' m' t] by simp
      qed
      from here rest show ?thesis
        using Cons None hm by (simp add: split_beta)
    qed
  qed
qed

text \<open>
  C8. Without a session secret (\<open>config.appSessionSecret\<close> falsy) the session
  middleware is not mounted, and the context middleware, the exchange handler and the
  final handler leave the session object as it was; so does the whole callback route
  when the application's own \<open>handleCallback\<close> leaves it alone. (The login and logout
  handlers only call \<open>res.openid.login\<close> and \<open>res.openid.logout\<close>, which are not
  among the sources.)
\<close>

theorem session_untouched_without_secret:
  assumes "\<not> truthy (appSessionSecret cfg)"
  shows "filter is_session_layer (auth cfg) = []
     \<and> session (snd (context_middleware lib cfg s)) = session s
     \<and> session (snd (exchange_handler cfg s)) = session s
     \<and> session (final_handler cfg s) = session s
     \<and> ((\<forall>t. session (snd (handleCallback cfg t)) = session t) \<longrightarrow>
          session (snd (callback_route cfg s)) = session s)"
proof -
  have ex: "session (snd (exchange_handler cfg s)) = session s"
    using assms by (simp add: exchange_handler_eq exchange_session_without_secret)
  have "session (snd (callback_route cfg s)) = session s"
    if hc: "\<forall>t. session (snd (handleCallback cfg t)) = session t"
  proof -
    have "session (snd (m t)) = session t" if "(h, m) \<in> set (callback_stack cfg)" for h m t
      using that hc assms
      by (auto simp: callback_stack_def exchange_middleware_eq final_middleware_def
          exchange_session_without_secret final_handler_session)
    then have "session (snd (snd (run_route (callback_stack cfg) [None] s))) = session s"
      by (rule run_route_session)
    then show ?thesis
      by (simp add: callback_route_def split_beta)
  qed
  then show ?thesis
    using assms ex
    by (simp add: session_layers_auth session_layers_def final_handler_session
        context_middleware_session)
qed

theorem session_untouched_without_secret_witness:
  "filter is_session_layer (auth (scenario_config\<lparr>appSessionSecret := JUndefined\<rparr>)) = []
   \<and> session (snd (callback_route (scenario_config\<lparr>appSessionSecret := JUndefined\<rparr>)
        (scenario_request ''S1'' ''/profile''))) = Some \<lparr>claims = None\<rparr>"
proof -
  have h: "\<not> truthy (appSessionSecret (scenario_config\<lparr>appSessionSecret := JUndefined\<rparr>))"
    by simp
  show ?thesis
    using session_untouched_without_secret
      [OF h, of failing_lib "scenario_request ''S1'' ''/profile''"]
    by (simp add: scenario_defs)
qed

subsection \<open>Consumption of the transient entries\<close>

lemma exchange_consumed:
  assumes "res_openid s = Some rc" and "getRedirectUri rc = Inr uri"
    and "req_openid s = Some qc" and "client qc = Some c"
    and "callbackParams c (req s) = Inr ps"
  shows "consumed (snd (exchange cfg s)) = consumed s @ [''nonce'', ''state'']"
  using assms read_checks_consumed [of cfg s]
  by (auto simp: exchange_def token_exchange_parsed Let_def
      split: option.splits sum.splits prod.splits)

lemma final_handler_consumed: "consumed (final_handler cfg s) = consumed s @ [''returnTo'']"
  by (simp add: final_handler_def split_beta getOnce_consumed)

text \<open>
  C2, as amended. For a callback request whose parameters the client parses, the
  exchange handler reads \<open>nonce\<close> and \<open>state\<close> through \<open>getOnce\<close> once each, whether
  the exchange then succeeds or fails. \<open>returnTo\<close> is read by the final handler
  alone. It is not read when the exchange handler fails. When the exchange handler
  continues without an error (and the extension point reads no transient entries
  itself), it is read exactly once if the first invocation the extension point makes
  of its continuation carries no error, and not at all if the extension point makes
  no invocation or its first carries an error.
\<close>

theorem transient_entries_consumed:
  assumes "res_openid s = Some rc" and "getRedirectUri rc = Inr uri"
    and "req_openid s = Some qc" and "client qc = Some c"
    and "callbackParams c (req s) = Inr ps"
    and "exchange_handler cfg s = (g, s1)"
  shows "consumed s1 = consumed s @ [''nonce'', ''state'']
     \<and> (\<forall>e. delivered g = [Some e] \<longrightarrow>
          consumed (snd (callback_route cfg s)) = consumed s @ [''nonce'', ''state''])
     \<and> (\<forall>cs s2. delivered g = [None] \<and> handleCallback cfg s1 = (cs, s2)
               \<and> consumed s2 = consumed s1 \<longrightarrow>
          consumed (snd (callback_route cfg s))
            = consumed s @ [''nonce'', ''state'']
                @ (if continues cs then [''returnTo''] else []))"
proof -
  have s1: "s1 = snd (exchange cfg s)"
    and g: "delivered g = [case fst (exchange cfg s) of Inl e \<Rightarrow> Some e | Inr u \<Rightarrow> None]"
    using assms(6) by (auto simp: exchange_handler_eq)
  have c1: "consumed s1 = consumed s @ [''nonce'', ''state'']"
    unfolding s1 by (rule exchange_consumed [OF assms(1-5)])
  have "consumed (snd (callback_route cfg s)) = consumed s @ [''nonce'', ''state'']"
    if "delivered g = [Some e]" for e
  proof -
    from that g s1 have "exchange cfg s = (Inl e, s1)"
      by (cases "fst (exchange cfg s)") (auto simp: prod_eq_iff)
    then show ?thesis
      using c1 by (simp add: callback_route_failed)
  qed
  moreover have "consumed (snd (callback_route cfg s))
      = consumed s @ [''nonce'', ''state''] @ (if continues cs then [''returnTo''] else [])"
    if "delivered g = [None]" and "handleCallback cfg s1 = (cs, s2)"
      and "consumed s2 = consumed s1" for cs s2
  proof -
    from that(1) g s1 have "exchange cfg s = (Inr (), s1)"
      by (cases "fst (exchange cfg s)") (auto simp: prod_eq_iff)
    from route_succeeded [OF this that(2)] show ?thesis
      using that(3) c1 by (simp add: callback_route_def final_handler_consumed)
  qed
  ultimately show ?thesis
    using c1 by blast
qed

theorem transient_entries_consumed_witness:
  "consumed (snd (callback_route scenario_config (scenario_request ''S1'' ''/profile'')))
     = [''nonce'', ''state'', ''returnTo'']
   \<and> consumed (snd (callback_route scenario_config (scenario_request ''WRONG'' ''/profile'')))
     = [''nonce'', ''state'']
   \<and> consumed (snd (callback_route twice_config (scenario_request ''S1'' ''/profile'')))
     = [''nonce'', ''state'', ''returnTo'']"
proof -
  have main: "consumed (snd (callback_route cfg (scenario_request st ''/profile'')))
      = (if st = ''S1'' then [''nonce'', ''state'', ''returnTo''] else [''nonce'', ''state''])"
    if cfg: "cfg = scenario_config \<or> cfg = twice_config" for cfg st
  proof -
    let ?s = "scenario_request st ''/profile''"
    let ?r = "exchange_handler cfg ?s"
    let ?h = "handleCallback cfg (snd ?r)"
    have h1: "res_openid ?s = Some \<lparr>getRedirectUri = Inr ''https://app.example/callback''\<rparr>"
      by (simp add: scenario_defs)
    have h2: "getRedirectUri \<lparr>getRedirectUri = Inr ''https://app.example/callback''\<rparr>
        = Inr ''https://app.example/callback''"
      by simp
    have h3: "req_openid ?s = Some \<lparr>client = Some scenario_client, isAuthenticated = False\<rparr>"
      by (simp add: scenario_defs)
    have h4: "client \<lparr>client = Some scenario_client, isAuthenticated = False\<rparr>
        = Some scenario_client"
      by simp
    have h5: "callbackParams scenario_client (req ?s) = Inr [(''code'', ''abc''), (''state'', st)]"
      by (simp add: scenario_defs)
    have h6: "?r = (fst ?r, snd ?r)"
      by simp
    have d: "delivered (fst ?r)
        = (if st = ''S1'' then [None] else [Some (BadRequest ''state mismatch'')])"
      using cfg by (auto simp: exchange_handler_eq callback_defs scenario_defs twice_config_def)
    have hc: "?h = (fst ?h, snd ?h)" "continues (fst ?h)" "consumed (snd ?h) = consumed (snd ?r)"
      using cfg by (auto simp: scenario_config_def twice_config_def twice_handler_def)
    note T = transient_entries_consumed [OF h1 h2 h3 h4 h5 h6]
    show ?thesis
    proof (cases "st = ''S1''")
      case True
      from T have "delivered (fst ?r) = [None] \<and> ?h = (fst ?h, snd ?h)
            \<and> consumed (snd ?h) = consumed (snd ?r) \<longrightarrow>
          consumed (snd (callback_route cfg ?s))
            = consumed ?s @ [''nonce'', ''state'']
                @ (if continues (fst ?h) then [''returnTo''] else [])"
        by blast
      with True d hc have "consumed (snd (callback_route cfg ?s))
          = consumed ?s @ [''nonce'', ''state''] @ [''returnTo'']"
        by simp
      with True show ?thesis by (simp add: scenario_request_def)
    next
      case False
      from T have "delivered (fst ?r) = [Some (BadRequest ''state mismatch'')] \<longrightarrow>
          consumed (snd (callback_route cfg ?s)) = consumed ?s @ [''nonce'', ''state'']"
        by blast
      with False d have "consumed (snd (callback_route cfg ?s))
          = consumed ?s @ [''nonce'', ''state'']"
        by simp
      with False show ?thesis by (simp add: scenario_request_def)
    qed
  qed
  show ?thesis
    using main [of scenario_config "''S1''"] main [of scenario_config "''WRONG''"]
      main [of twice_config "''S1''"]
    by simp
qed

text \<open>
  C2 as stated fails on scenario 3 of the spec (the \<open>state\<close> parameter is wrong): the
  route fails with \<open>BadRequest\<close>, \<open>nonce\<close> and \<open>state\<close> have been read, \<open>returnTo\<close>
  has not.
\<close>

theorem returnTo_not_consumed_counterexample:
  "fst (callback_route scenario_config (scenario_request ''WRONG'' ''/profile''))
     = [BadRequest ''state mismatch'']
   \<and> \<not> (count_list (consumed (snd (callback_route scenario_config
              (scenario_request ''WRONG'' ''/profile'')))) ''nonce'' = 1
        \<and> count_list (consumed (snd (callback_route scenario_config
              (scenario_request ''WRONG'' ''/profile'')))) ''state'' = 1
        \<and> count_list (consumed (snd (callback_route scenario_config
              (scenario_request ''WRONG'' ''/profile'')))) ''returnTo'' = 1)"
proof -
  have "callback_route scenario_config (scenario_request ''WRONG'' ''/profile'')
      = ([BadRequest ''state mismatch''],
         snd (exchange scenario_config (scenario_request ''WRONG'' ''/profile'')))"
    by (rule callback_route_failed) (simp add: callback_defs scenario_defs)
  moreover have "consumed (snd (exchange scenario_config
      (scenario_request ''WRONG'' ''/profile''))) = [''nonce'', ''state'']"
    by (simp add: callback_defs scenario_defs)
  ultimately show ?thesis by simp
qed

end
